theory Spec2Isabelle
  imports Complex_Main "HOL-Library.Log_Nat"
begin

section \<open>JavaScript numbers\<close>

text \<open>
  The percentage is computed as \<^verbatim>\<open>Math.round((completed / total) * 100)\<close>. Both
  \<^verbatim>\<open>/\<close> and \<^verbatim>\<open>*\<close> are IEEE 754 double precision operations: the exact result is
  rounded to the nearest number with a 53 bit significand, ties to the even significand.
  A finite double is modelled by the rational number it denotes. The exponent range is
  not modelled: every value that occurs here lies between \<open>2\<^sup>-\<^sup>3\<^sup>2\<close> and \<open>100\<close>, far from
  overflow and from the subnormal numbers.
\<close>

type_synonym number = rat

definition pow2 :: "int \<Rightarrow> rat" where
  "pow2 e = (if 0 \<le> e then 2 ^ nat e else 1 / 2 ^ nat (- e))"

definition round_half_even :: "rat \<Rightarrow> int" where
  "round_half_even z =
     (let f = \<lfloor>z\<rfloor>; d = z - of_int f
      in if d < 1 / 2 then f
         else if 1 / 2 < d then f + 1
         else if even f then f else f + 1)"

text \<open>The binade of a positive rational \<open>x\<close>: the integer \<open>k\<close> with \<open>2\<^sup>k \<le> x < 2\<^sup>k\<^sup>+\<^sup>1\<close>.\<close>

definition binade :: "rat \<Rightarrow> int" where
  "binade x =
     (let (a, b) = quotient_of x; k = bitlen a - bitlen b
      in if x < pow2 k then k - 1 else k)"

definition to_double :: "rat \<Rightarrow> number" where
  "to_double x =
     (if x = 0 then 0
      else let e = binade \<bar>x\<bar> - 52
           in sgn x * of_int (round_half_even (\<bar>x\<bar> / pow2 e)) * pow2 e)"

definition js_divide :: "number \<Rightarrow> number \<Rightarrow> number" where
  "js_divide x y = to_double (x / y)"

definition js_times :: "number \<Rightarrow> number \<Rightarrow> number" where
  "js_times x y = to_double (x * y)"

text \<open>
  \<^verbatim>\<open>Math.round\<close> is exact: the integer closest to its argument, the larger one of two
  that are equally close.
\<close>

definition Math_round :: "number \<Rightarrow> int" where
  "Math_round x = \<lfloor>x + 1 / 2\<rfloor>"

section \<open>Data model\<close>

text \<open>
  A subtask is an object with a boolean \<^verbatim>\<open>completed\<close> and further fields the code never
  touches: the extension slot of the record. A task has an identifier, a category and
  its subtasks; \<open>None\<close> is a missing (falsy) \<^verbatim>\<open>subtasks\<close> property. Tasks carry further
  fields as well.
\<close>

record subtask =
  completed :: bool

record 'a task =
  task_id :: string
  category :: string
  subtasks :: "'a subtask_scheme list option"

text \<open>
  What a caller can pass for \<^verbatim>\<open>subtasks\<close>: an array of subtasks, or a value that is not
  an array. \<open>JObject\<close> is a plain data object, one without a callable \<^verbatim>\<open>filter\<close> property.
  A JavaScript array has fewer than \<open>2\<^sup>3\<^sup>2\<close> elements, so its length is a double without
  rounding.
\<close>

datatype 'a js_value =
    JUndefined
  | JNull
  | JBoolean bool
  | JNumber number
  | JString string
  | JObject
  | JArray "'a subtask_scheme list"

datatype exn = TypeError | FetchFailed

datatype console_entry =
    Warn string
  | Error string "exn option"

fun Array_isArray :: "'a js_value \<Rightarrow> bool" where
  "Array_isArray (JArray _) = True"
| "Array_isArray _ = False"

section \<open>Percentage\<close>

text \<open>
  \<^verbatim>\<open>total === 0 ? 0 : Math.round((completed / total) * 100)\<close>, the expression shared by
  \<^verbatim>\<open>calculateProgress\<close>, \<^verbatim>\<open>calculateProgressPercentage\<close> and \<^verbatim>\<open>toggleSubtaskCompletion\<close>.
\<close>

definition percentage_of :: "nat \<Rightarrow> nat \<Rightarrow> int" where
  "percentage_of ncompleted ntotal =
     (if ntotal = 0 then 0
      else Math_round (js_times (js_divide (of_nat ncompleted) (of_nat ntotal)) 100))"

text \<open>
  \<^verbatim>\<open>calculateProgress\<close> returns what it wrote to the console together with its result.
\<close>

definition calculateProgress :: "'a js_value \<Rightarrow> console_entry list \<times> int" where
  "calculateProgress v =
     (case v of
        JArray S \<Rightarrow>
          (let ntotal = length S;
               ncompleted = length (filter completed S)
           in ([], percentage_of ncompleted ntotal))
      | _ \<Rightarrow> ([Warn ''Invalid subtasks array. Returning 0 progress.''], 0))"

text \<open>
  \<^verbatim>\<open>calculateProgressPercentage\<close> has no guard: \<^verbatim>\<open>subtasks.filter\<close> on a value that is not
  an array throws a \<^verbatim>\<open>TypeError\<close>.
\<close>

definition calculateProgressPercentage :: "'a js_value \<Rightarrow> exn + int" where
  "calculateProgressPercentage v =
     (case v of
        JArray S \<Rightarrow>
          (let ncompleted = length (filter completed S)
           in Inr (percentage_of ncompleted (length S)))
      | _ \<Rightarrow> Inl TypeError)"

text \<open>
  The percentage in the words of the specification: \<open>100 * c / n\<close> computed exactly and
  rounded to the nearest integer, halves up; \<open>0\<close> for the empty sequence.
\<close>

definition spec_computePercentage :: "'a subtask_scheme list \<Rightarrow> int" where
  "spec_computePercentage S =
     (if S = [] then 0
      else \<lfloor>100 * rat_of_nat (length (filter completed S)) / rat_of_nat (length S) + 1 / 2\<rfloor>)"

text \<open>
  The exact ratio \<open>100 * c / n\<close> lies halfway between two integers when
  \<open>200 * c + n\<close> is a multiple of \<open>2 * n\<close>.
\<close>

definition halfway :: "nat \<Rightarrow> nat \<Rightarrow> bool" where
  "halfway c n = (2 * n dvd 200 * c + n)"

section \<open>Template literals\<close>

text \<open>
  \<^verbatim>\<open>`${k}`\<close> for an integral number \<open>k\<close> is its decimal representation; for a missing
  argument it is \<^verbatim>\<open>undefined\<close>.
\<close>

fun digits :: "nat \<Rightarrow> string" where
  "digits k =
     (if k < 10 then [''0123456789'' ! k]
      else digits (k div 10) @ [''0123456789'' ! (k mod 10)])"

declare digits.simps [simp del]

definition string_of_int :: "int \<Rightarrow> string" where
  "string_of_int k = (if k < 0 then ''-'' @ digits (nat (- k)) else digits (nat k))"

definition template :: "int option \<Rightarrow> string" where
  "template a = (case a of None \<Rightarrow> ''undefined'' | Some k \<Rightarrow> string_of_int k)"

section \<open>The document\<close>

text \<open>
  The document is modelled by what the selectors of the code find in it. For a task
  identifier, \<open>progress_bar_container\<close> is the element that
  \<^verbatim>\<open>#task-${taskId} .progress-bar-container\<close> selects; inside it, \<open>progress_bar_fill\<close> is
  the element of class \<^verbatim>\<open>progress-bar-fill\<close> and \<open>span\<close> the text of the first
  \<^verbatim>\<open>span\<close>. \<open>taskOverlay\<close> is the \<^verbatim>\<open>style.display\<close> of the element with that id and
  \<open>overlayDetails\<close> the \<^verbatim>\<open>innerHTML\<close> of the element with that id. \<open>None\<close> is an
  element that the document does not have.
\<close>

record fill_element =
  width :: string
  backgroundColor :: string

record container_element =
  display :: string
  progress_bar_fill :: "fill_element option"
  span :: "string option"

record dom =
  progress_bar_container :: "string \<Rightarrow> container_element option"
  taskOverlay :: "string option"
  overlayDetails :: "string option"

section \<open>The environment and the state\<close>

record request =
  url :: string
  http_method :: string
  headers :: "(string \<times> string) list"
  body :: string

text \<open>
  How the promise of \<^verbatim>\<open>fetch\<close> settles. It is fulfilled with a response whenever the
  server answers, whatever the HTTP status of the answer, and rejected only when no
  answer arrives.
\<close>

datatype fetch_result = Fulfilled nat | Rejected exn

text \<open>
  What the file takes from its surroundings: the constant \<^verbatim>\<open>TASK_URL\<close>, the answer of
  the network to a request, \<^verbatim>\<open>JSON.stringify\<close> on a subtask array (subtasks have fields
  that the model does not know), and the template function of the overlay.
\<close>

record ('a, 'b) env =
  TASK_URL :: string
  fetch :: "request \<Rightarrow> fetch_result"
  JSON_stringify :: "'a subtask_scheme list \<Rightarrow> string"
  getBoardOverlayTemplate :: "string \<Rightarrow> ('a, 'b) task_scheme \<Rightarrow> string"

text \<open>
  The state the code reads and writes: the tasks in memory by identifier, the document,
  the console, the requests sent with \<^verbatim>\<open>fetch\<close> and the calls of
  \<^verbatim>\<open>syncSubtasksWithFirebase\<close>, the oldest first.
\<close>

record ('a, 'b) world =
  tasks :: "string \<Rightarrow> ('a, 'b) task_scheme option"
  document :: dom
  console :: "console_entry list"
  requests :: "request list"
  synced :: "(string \<times> 'a subtask_scheme list \<times> string) list"

text \<open>
  Modelled from the spec: \<^verbatim>\<open>findTaskInData\<close> is not in this file. The specification has
  it as the task lookup collaborator: given a task identifier, it returns the in-memory
  task object or an absent value.
\<close>

definition findTaskInData :: "('a, 'b) world \<Rightarrow> string \<Rightarrow> ('a, 'b) task_scheme option" where
  "findTaskInData w taskId = tasks w taskId"

text \<open>
  Modelled from the spec: \<^verbatim>\<open>syncSubtasksWithFirebase\<close> is not in this file. The
  specification has it as \<^verbatim>\<open>persist(taskId, subtasks, category)\<close>, an asynchronous call
  to the external store that replaces the subtask sequence of the task. Its caller does
  not wait for it; the model records the call.
\<close>

definition syncSubtasksWithFirebase ::
  "string \<Rightarrow> 'a subtask_scheme list \<Rightarrow> string \<Rightarrow> ('a, 'b) world \<Rightarrow> ('a, 'b) world" where
  "syncSubtasksWithFirebase taskId S cat w = w\<lparr>synced := synced w @ [(taskId, S, cat)]\<rparr>"

section \<open>Operations\<close>

text \<open>
  \<^verbatim>\<open>xs[i]\<close>: the element when \<open>i\<close> is an index of the array, \<^verbatim>\<open>undefined\<close> otherwise.
\<close>

definition js_index :: "'x list \<Rightarrow> int \<Rightarrow> 'x option" where
  "js_index xs i = (if 0 \<le> i \<and> i < int (length xs) then Some (xs ! nat i) else None)"

text \<open>
  The file declares \<^verbatim>\<open>updateProgressBar\<close> twice, with two and with four parameters.
  Both are function declarations of one script, so the second replaces the first and
  every call runs the second: it is the one modelled. A call with two arguments leaves
  \<^verbatim>\<open>completed\<close> and \<^verbatim>\<open>total\<close> undefined, and \<^verbatim>\<open>undefined > 0\<close> is false.
\<close>

definition updateProgressBar :: "string \<Rightarrow> int \<Rightarrow> int option \<Rightarrow> int option \<Rightarrow> dom \<Rightarrow> dom" where
  "updateProgressBar taskId progressPercentage ncompleted ntotal d =
     (case progress_bar_container d taskId of
        None \<Rightarrow> d
      | Some progressBarContainer \<Rightarrow>
          if (case ntotal of None \<Rightarrow> False | Some t \<Rightarrow> 0 < t) then
            let c1 = progressBarContainer\<lparr>display := ''block''\<rparr>;
                c2 = (case progress_bar_fill c1 of
                        None \<Rightarrow> c1
                      | Some progressBarFill \<Rightarrow>
                          c1\<lparr>progress_bar_fill := Some (progressBarFill
                             \<lparr>width := string_of_int progressPercentage @ ''%'',
                              backgroundColor :=
                                (if progressPercentage = 0 then ''lightgray'' else ''blue'')\<rparr>)\<rparr>);
                c3 = (case span c2 of
                        None \<Rightarrow> c2
                      | Some subtaskCounter \<Rightarrow>
                          c2\<lparr>span := Some (template ncompleted @ ''/'' @ template ntotal
                                               @ '' Subtasks'')\<rparr>)
            in d\<lparr>progress_bar_container := (progress_bar_container d)(taskId := Some c3)\<rparr>
          else d\<lparr>progress_bar_container := (progress_bar_container d)(taskId := None)\<rparr>)"

definition updateOverlayIfVisible ::
  "('a, 'b) env \<Rightarrow> string \<Rightarrow> ('a, 'b) task_scheme \<Rightarrow> dom \<Rightarrow> dom" where
  "updateOverlayIfVisible E cat task d =
     (case taskOverlay d of
        None \<Rightarrow> d
      | Some overlay_display \<Rightarrow>
          if overlay_display = ''block'' then
            (case overlayDetails d of
               None \<Rightarrow> d
             | Some _ \<Rightarrow> d\<lparr>overlayDetails := Some (getBoardOverlayTemplate E cat task)\<rparr>)
          else d)"

definition progressBarfilling ::
  "('a, 'b) env \<Rightarrow> string \<Rightarrow> string \<Rightarrow> int \<Rightarrow> int option \<Rightarrow> int option
     \<Rightarrow> ('a, 'b) task_scheme \<Rightarrow> dom \<Rightarrow> dom" where
  "progressBarfilling E taskId cat progressPercentage ncompleted ntotal task d =
     updateOverlayIfVisible E cat task
       (updateProgressBar taskId progressPercentage ncompleted ntotal d)"

text \<open>The subtask array with the flag at index \<open>i\<close> negated.\<close>

definition flip_completed :: "'a subtask_scheme list \<Rightarrow> int \<Rightarrow> 'a subtask_scheme list" where
  "flip_completed S i = S[nat i := (S ! nat i)\<lparr>completed := \<not> completed (S ! nat i)\<rparr>]"

text \<open>The request that \<^verbatim>\<open>toggleSubtaskCompletion\<close> sends.\<close>

definition put_subtasks ::
  "('a, 'b) env \<Rightarrow> string \<Rightarrow> ('a, 'b) task_scheme \<Rightarrow> 'a subtask_scheme list \<Rightarrow> request" where
  "put_subtasks E taskId task S =
     \<lparr>url = TASK_URL E @ ''/'' @ category task @ ''/'' @ taskId @ ''/subtasks.json'',
      http_method = ''PUT'',
      headers = [(''Content-Type'', ''application/json'')],
      body = JSON_stringify E S\<rparr>"

text \<open>
  \<^verbatim>\<open>toggleSubtaskCompletion\<close> is an \<^verbatim>\<open>async\<close> function. The first component of the result
  is how its promise settles: \<open>None\<close> when it is fulfilled, \<open>Some e\<close> when it is
  rejected with the exception \<open>e\<close>. The assignment is outside the \<^verbatim>\<open>try\<close> block: when
  \<^verbatim>\<open>task.subtasks[subtaskIndex]\<close> is \<^verbatim>\<open>undefined\<close>, reading its \<^verbatim>\<open>completed\<close> throws a
  \<^verbatim>\<open>TypeError\<close> that nothing catches. The response of \<^verbatim>\<open>fetch\<close> is awaited and dropped:
  its status is never read.
\<close>

definition toggleSubtaskCompletion ::
  "('a, 'b) env \<Rightarrow> string \<Rightarrow> int \<Rightarrow> ('a, 'b) world \<Rightarrow> exn option \<times> ('a, 'b) world" where
  "toggleSubtaskCompletion E taskId subtaskIndex w =
     (case findTaskInData w taskId of
        None \<Rightarrow> (None, w)
      | Some task \<Rightarrow>
          (case subtasks task of
             None \<Rightarrow> (None, w)
           | Some S \<Rightarrow>
               (case js_index S subtaskIndex of
                  None \<Rightarrow> (Some TypeError, w)
                | Some _ \<Rightarrow>
                    let S' = flip_completed S subtaskIndex;
                        task' = task\<lparr>subtasks := Some S'\<rparr>;
                        w1 = w\<lparr>tasks := (tasks w)(taskId := Some task')\<rparr>;
                        req = put_subtasks E taskId task' S';
                        w2 = w1\<lparr>requests := requests w1 @ [req]\<rparr>
                    in (case fetch E req of
                          Rejected e \<Rightarrow>
                            (None, w2\<lparr>console := console w2 @
                               [Error (''Failed to save updated subtasks for Task ID ''
                                        @ taskId @ '':'') (Some e)]\<rparr>)
                        | Fulfilled status \<Rightarrow>
                            let ncompleted = length (filter completed S');
                                ntotal = length S';
                                progressPercentage = percentage_of ncompleted ntotal
                            in (None, w2\<lparr>document :=
                                  progressBarfilling E taskId (category task') progressPercentage
                                    (Some (int ncompleted)) (Some (int ntotal)) task'
                                    (document w2)\<rparr>)))))"

definition updateSubtaskProgress ::
  "string \<Rightarrow> 'a subtask_scheme list \<Rightarrow> string \<Rightarrow> ('a, 'b) world \<Rightarrow> ('a, 'b) world" where
  "updateSubtaskProgress taskId S cat w =
     (let (warnings, progress) = calculateProgress (JArray S);
          w1 = w\<lparr>console := console w @ warnings\<rparr>;
          w2 = w1\<lparr>document := updateProgressBar taskId progress None None (document w1)\<rparr>
      in syncSubtasksWithFirebase taskId S cat w2)"

text \<open>
  \<^verbatim>\<open>updateSubtaskState\<close> gets the task object itself and changes it in place: the model
  returns the task after the call together with the state.
\<close>

definition updateSubtaskState ::
  "('a, 'b) task_scheme \<Rightarrow> int \<Rightarrow> ('a, 'b) world
     \<Rightarrow> ('a, 'b) task_scheme \<times> ('a, 'b) world" where
  "updateSubtaskState task subtaskIndex w =
     (let S = (case subtasks task of None \<Rightarrow> [] | Some a \<Rightarrow> a)
      in case js_index S subtaskIndex of
           None \<Rightarrow>
             (task, w\<lparr>console := console w @
                [Error (''Subtask with index '' @ string_of_int subtaskIndex @ '' not found.'')
                   None]\<rparr>)
         | Some _ \<Rightarrow>
             let S' = flip_completed S subtaskIndex;
                 task' = task\<lparr>subtasks := Some S'\<rparr>
             in (task', updateSubtaskProgress (task_id task') S' (category task') w))"

section \<open>Example data\<close>

text \<open>
  A task with two open subtasks in a state with nothing else, a document that shows its
  progress bar, and an environment whose network gives one answer to every request.
\<close>

definition example_env :: "fetch_result \<Rightarrow> (unit, unit) env" where
  "example_env r =
     \<lparr>TASK_URL = ''https://example.invalid/tasks'',
      fetch = (\<lambda>_. r),
      JSON_stringify = map (\<lambda>s. if completed s then CHR ''1'' else CHR ''0''),
      getBoardOverlayTemplate = (\<lambda>cat task. cat)\<rparr>"

definition example_task :: "(unit, unit) task_scheme" where
  "example_task =
     \<lparr>task_id = ''7'', category = ''todo'',
      subtasks = Some [\<lparr>completed = False\<rparr>, \<lparr>completed = False\<rparr>]\<rparr>"

definition example_document :: dom where
  "example_document =
     \<lparr>progress_bar_container = (\<lambda>_. None)(''7'' := Some
        \<lparr>display = ''none'',
         progress_bar_fill = Some \<lparr>width = ''0%'', backgroundColor = ''lightgray''\<rparr>,
         span = Some ''0/2 Subtasks''\<rparr>),
      taskOverlay = None,
      overlayDetails = None\<rparr>"

definition example_world :: "(unit, unit) world" where
  "example_world =
     \<lparr>tasks = (\<lambda>_. None)(''7'' := Some example_task),
      document = example_document,
      console = [],
      requests = [],
      synced = []\<rparr>"

text \<open>Three subtasks that carry a title besides the flag.\<close>

definition example_three :: "string subtask_scheme list" where
  "example_three =
     [\<lparr>completed = True, \<dots> = ''design''\<rparr>, \<lparr>completed = False, \<dots> = ''build''\<rparr>,
      \<lparr>completed = False, \<dots> = ''ship''\<rparr>]"

definition example_env_3 :: "fetch_result \<Rightarrow> (string, unit) env" where
  "example_env_3 r =
     \<lparr>TASK_URL = ''https://example.invalid/tasks'',
      fetch = (\<lambda>_. r),
      JSON_stringify = concat \<circ> map subtask.more,
      getBoardOverlayTemplate = (\<lambda>cat task. cat)\<rparr>"

definition example_world_3 :: "(string, unit) world" where
  "example_world_3 =
     \<lparr>tasks = (\<lambda>_. None)(''7'' := Some
        \<lparr>task_id = ''7'', category = ''todo'', subtasks = Some example_three\<rparr>),
      document = example_document,
      console = [],
      requests = [],
      synced = []\<rparr>"

section \<open>Rounding to double precision\<close>

text \<open>
  The model of rounding is checked against its specification: \<open>binade\<close> finds the power
  of two below its argument, and \<open>to_double\<close> is within a relative error of \<open>2\<^sup>-\<^sup>5\<^sup>3\<close>.
\<close>

lemma pow2_powi: "pow2 e = 2 powi e"
  by (simp add: pow2_def power_int_def inverse_eq_divide power_one_over)

lemma pow2_pos: "0 < pow2 e"
  by (simp add: pow2_powi)

lemma pow2_diff: "pow2 (a - b) = pow2 a / pow2 b"
  by (simp add: pow2_powi power_int_diff)

lemma pow2_52: "pow2 52 = 2 ^ 52"
  by (simp add: pow2_def)

lemma binade_bounds:
  assumes "0 < x"
  shows "pow2 (binade x) \<le> x" and "x < pow2 (binade x + 1)"
proof -
  obtain a b where q: "quotient_of x = (a, b)" by (cases "quotient_of x")
  have b: "0 < b" using quotient_of_denom_pos [OF q] .
  have x: "x = of_int a / of_int b" using quotient_of_div [OF q] .
  have a: "0 < a" using assms b x by (simp add: zero_less_divide_iff)
  define k where "k = bitlen a - bitlen b"
  have bd: "binade x = (if x < pow2 k then k - 1 else k)"
    by (simp add: binade_def q k_def)
  have la: "1 \<le> bitlen a" and lb: "1 \<le> bitlen b"
    using a b bitlen_eq_zero_iff [of a] bitlen_eq_zero_iff [of b] bitlen_nonneg [of a] bitlen_nonneg [of b]
    by linarith+
  have a1: "(2::rat) powi (bitlen a - 1) \<le> of_int a" and a2: "of_int a < (2::rat) powi (bitlen a)"
  proof -
    have "2 ^ nat (bitlen a - 1) \<le> a" "a < 2 ^ nat (bitlen a)" using bitlen_bounds [OF a] by auto
    then have "rat_of_int (2 ^ nat (bitlen a - 1)) \<le> of_int a" "rat_of_int a < of_int (2 ^ nat (bitlen a))"
      by (simp_all only: of_int_le_iff of_int_less_iff)
    then show "(2::rat) powi (bitlen a - 1) \<le> of_int a" "of_int a < (2::rat) powi (bitlen a)"
      using la by (simp_all add: power_int_def)
  qed
  have b1: "(2::rat) powi (bitlen b - 1) \<le> of_int b" and b2: "of_int b < (2::rat) powi (bitlen b)"
  proof -
    have "2 ^ nat (bitlen b - 1) \<le> b" "b < 2 ^ nat (bitlen b)" using bitlen_bounds [OF b] by auto
    then have "rat_of_int (2 ^ nat (bitlen b - 1)) \<le> of_int b" "rat_of_int b < of_int (2 ^ nat (bitlen b))"
      by (simp_all only: of_int_le_iff of_int_less_iff)
    then show "(2::rat) powi (bitlen b - 1) \<le> of_int b" "of_int b < (2::rat) powi (bitlen b)"
      using lb by (simp_all add: power_int_def)
  qed
  have bpos: "(0::rat) < of_int b" using b by simp
  have lo: "pow2 (k - 1) < x"
  proof -
    have "pow2 (k - 1) * of_int b < pow2 (k - 1) * 2 powi (bitlen b)"
      using b2 pow2_pos [of "k - 1"] by simp
    also have "\<dots> = 2 powi (bitlen a - 1)"
      by (simp add: pow2_powi k_def flip: power_int_add)
    also have "\<dots> \<le> of_int a" by (rule a1)
    finally show ?thesis using bpos by (simp add: x pos_less_divide_eq)
  qed
  have hi: "x < pow2 (k + 1)"
  proof -
    have "of_int a < (2::rat) powi (bitlen a)" by (rule a2)
    also have "\<dots> = pow2 (k + 1) * 2 powi (bitlen b - 1)"
      by (simp add: pow2_powi k_def flip: power_int_add)
    also have "\<dots> \<le> pow2 (k + 1) * of_int b"
      using b1 pow2_pos [of "k + 1"] by simp
    finally show ?thesis using bpos by (simp add: x pos_divide_less_eq)
  qed
  show "pow2 (binade x) \<le> x" using lo by (simp add: bd)
  show "x < pow2 (binade x + 1)" using hi by (simp add: bd)
qed

lemma round_half_even_error: "\<bar>of_int (round_half_even z) - z\<bar> \<le> 1 / 2"
proof -
  have "of_int \<lfloor>z\<rfloor> \<le> z" "z < of_int \<lfloor>z\<rfloor> + 1" by linarith+
  then show ?thesis
    by (auto simp add: round_half_even_def Let_def)
qed

lemma to_double_error:
  assumes "0 < x"
  shows "\<bar>to_double x - x\<bar> \<le> x / 2 ^ 53"
proof -
  define e where "e = binade x - 52"
  define z where "z = x / pow2 e"
  have pe: "0 < pow2 e" by (rule pow2_pos)
  have td: "to_double x = of_int (round_half_even z) * pow2 e"
    using assms by (simp add: to_double_def e_def z_def Let_def)
  have zx: "z * pow2 e = x" using pe by (simp add: z_def)
  have "to_double x - x = (of_int (round_half_even z) - z) * pow2 e"
    by (simp add: td zx left_diff_distrib)
  then have "\<bar>to_double x - x\<bar> = \<bar>of_int (round_half_even z) - z\<bar> * pow2 e"
    using pe by (simp add: abs_mult)
  also have "\<dots> \<le> 1 / 2 * pow2 e"
    using round_half_even_error [of z] pe by (intro mult_right_mono) simp_all
  also have "pow2 e = pow2 (binade x) / 2 ^ 52"
    by (simp add: e_def pow2_diff pow2_52)
  also have "1 / 2 * (pow2 (binade x) / 2 ^ 52) \<le> 1 / 2 * (x / 2 ^ 52)"
    using binade_bounds(1) [OF assms] by (simp add: divide_right_mono)
  also have "\<dots> = x / 2 ^ 53" by simp
  finally show ?thesis by simp
qed


lemma to_double_0: "to_double 0 = 0"
  by (simp add: to_double_def)

lemma to_double_pos:
  assumes "0 < x"
  shows "0 < to_double x"
proof -
  have "x / 2 ^ 53 < x" using assms by (simp add: divide_less_eq)
  then show ?thesis using to_double_error [OF assms] by linarith
qed

lemma product_close:
  assumes c: "0 < c" and cn: "c \<le> n"
  shows "0 < js_times (js_divide (of_nat c) (of_nat n)) 100"
    and "\<bar>js_times (js_divide (of_nat c) (of_nat n)) 100 - 100 * rat_of_nat c / rat_of_nat n\<bar>
           \<le> 300 / 2 ^ 53"
proof -
  define x where "x = rat_of_nat c / rat_of_nat n"
  define x1 where "x1 = to_double x"
  define y where "y = x1 * 100"
  define v where "v = to_double y"
  have v: "js_times (js_divide (of_nat c) (of_nat n)) 100 = v"
    by (simp add: js_times_def js_divide_def v_def y_def x1_def x_def)
  have n: "0 < n" using c cn by simp
  have x0: "0 < x" using c n by (simp add: x_def)
  have x1': "x \<le> 1" using cn n by (simp add: x_def)
  have e1: "\<bar>x1 - x\<bar> \<le> x / 2 ^ 53" unfolding x1_def by (rule to_double_error [OF x0])
  have "x / 2 ^ 53 \<le> 1 / 2 ^ 53" using x1' by (simp add: divide_right_mono)
  with e1 have e1': "\<bar>x1 - x\<bar> \<le> 1 / 2 ^ 53" by linarith
  have x1p: "0 < x1" unfolding x1_def by (rule to_double_pos [OF x0])
  have "(1::rat) / 2 ^ 53 \<le> 1" by simp
  with e1' x1' have x1u: "x1 \<le> 2" by linarith
  have y0: "0 < y" using x1p by (simp add: y_def)
  have yu: "y \<le> 200" using x1u by (simp add: y_def)
  have e2: "\<bar>v - y\<bar> \<le> y / 2 ^ 53" unfolding v_def by (rule to_double_error [OF y0])
  have "y / 2 ^ 53 \<le> 200 / 2 ^ 53" using yu by (simp add: divide_right_mono)
  with e2 have e2': "\<bar>v - y\<bar> \<le> 200 / 2 ^ 53" by linarith
  have "y - 100 * x = 100 * (x1 - x)" by (simp add: y_def algebra_simps)
  then have "\<bar>y - 100 * x\<bar> = 100 * \<bar>x1 - x\<bar>" by (simp only: abs_mult abs_numeral)
  also have "\<dots> \<le> 100 * (1 / 2 ^ 53)" using e1' by (intro mult_left_mono) simp_all
  finally have e3: "\<bar>y - 100 * x\<bar> \<le> 100 / 2 ^ 53" by simp
  have "\<bar>v - 100 * x\<bar> \<le> 300 / 2 ^ 53" using e2' e3 by linarith
  then show "\<bar>js_times (js_divide (of_nat c) (of_nat n)) 100 - 100 * rat_of_nat c / rat_of_nat n\<bar>
           \<le> 300 / 2 ^ 53"
    by (simp add: v x_def)
  show "0 < js_times (js_divide (of_nat c) (of_nat n)) 100"
    unfolding v v_def by (rule to_double_pos [OF y0])
qed

lemma floor_half: "\<lfloor>1 / 2 :: rat\<rfloor> = 0"
  by (rule floor_unique) simp_all

lemma percentage_of_0: "percentage_of 0 n = 0"
  by (simp add: percentage_of_def js_divide_def js_times_def to_double_0 Math_round_def floor_half)

lemma percentage_of_range:
  assumes "c \<le> n"
  shows "0 \<le> percentage_of c n" and "percentage_of c n \<le> 100"
proof -
  have "0 \<le> percentage_of c n \<and> percentage_of c n \<le> 100"
  proof (cases "c = 0 \<or> n = 0")
    case True
    then show ?thesis
    proof
      assume "c = 0"
      then show ?thesis by (simp add: percentage_of_0)
    next
      assume "n = 0"
      then show ?thesis by (simp add: percentage_of_def)
    qed
  next
    case False
    then have c: "0 < c" and n: "0 < n" by simp_all
    define v where "v = js_times (js_divide (of_nat c) (of_nat n)) 100"
    have p: "percentage_of c n = \<lfloor>v + 1 / 2\<rfloor>"
      using n by (simp add: percentage_of_def Math_round_def v_def)
    have v0: "0 < v" unfolding v_def by (rule product_close(1) [OF c assms])
    have cl: "\<bar>v - 100 * rat_of_nat c / rat_of_nat n\<bar> \<le> 300 / 2 ^ 53"
      unfolding v_def by (rule product_close(2) [OF c assms])
    have "rat_of_nat c / rat_of_nat n \<le> 1" using assms n by simp
    then have "100 * rat_of_nat c / rat_of_nat n \<le> 100" by simp
    moreover have "(300::rat) / 2 ^ 53 < 1 / 2" by simp
    ultimately have "v + 1 / 2 < 101" using cl by linarith
    then have "\<lfloor>v + 1 / 2\<rfloor> < 101" by (simp add: floor_less_iff)
    moreover have "0 \<le> \<lfloor>v + 1 / 2\<rfloor>" using v0 by simp
    ultimately show ?thesis by (simp add: p)
  qed
  then show "0 \<le> percentage_of c n" and "percentage_of c n \<le> 100" by simp_all
qed

lemma percentage_of_exact:
  assumes cn: "c \<le> n" and n: "0 < n" and nb: "n < 2 ^ 32"
  shows "\<not> halfway c n \<Longrightarrow>
           percentage_of c n = \<lfloor>100 * rat_of_nat c / rat_of_nat n + 1 / 2\<rfloor>"
    and "halfway c n \<Longrightarrow>
           percentage_of c n = \<lfloor>100 * rat_of_nat c / rat_of_nat n + 1 / 2\<rfloor>
         \<or> percentage_of c n = \<lfloor>100 * rat_of_nat c / rat_of_nat n + 1 / 2\<rfloor> - 1"
proof -
  define r where "r = 100 * rat_of_nat c / rat_of_nat n + 1 / 2"
  define N where "N = 200 * int c + int n"
  define D where "D = 2 * int n"
  define k where "k = N div D"
  define m where "m = N mod D"
  define v where "v = js_times (js_divide (of_nat c) (of_nat n)) 100"
  have D0: "0 < D" using n by (simp add: D_def)
  have Db: "D < 2 ^ 33" using nb by (simp add: D_def)
  have rND: "r = of_int N / of_int D"
    using n by (simp add: r_def N_def D_def field_simps)
  have N: "N = k * D + m" by (simp add: k_def m_def)
  have m0: "0 \<le> m" and mD: "m < D" using D0 by (simp_all add: m_def)
  have rk: "r = of_int k + of_int m / of_int D"
    using D0 by (simp add: rND N field_simps)
  have fl: "\<lfloor>r\<rfloor> = k"
    using D0 by (simp add: rND k_def floor_divide_of_int_eq)
  have tie: "halfway c n \<longleftrightarrow> m = 0"
  proof -
    have "halfway c n \<longleftrightarrow> int (2 * n) dvd int (200 * c + n)"
      unfolding halfway_def by (simp only: int_dvd_int_iff)
    also have "\<dots> \<longleftrightarrow> D dvd N" by (simp add: D_def N_def)
    also have "\<dots> \<longleftrightarrow> m = 0" by (simp add: m_def dvd_eq_mod_eq_0)
    finally show ?thesis .
  qed
  have p: "percentage_of c n = \<lfloor>v + 1 / 2\<rfloor>"
    using n by (simp add: percentage_of_def Math_round_def v_def)
  have small: "300 / 2 ^ 53 < 1 / rat_of_int D"
  proof -
    have "rat_of_int D < of_int (2 ^ 33)" using Db by (simp only: of_int_less_iff)
    then have "300 * rat_of_int D < 2 ^ 53" by simp
    then show ?thesis using D0 by (simp add: field_simps)
  qed
  have close: "\<bar>v + 1 / 2 - r\<bar> < 1 / rat_of_int D"
  proof (cases "c = 0")
    case True
    then have "v = 0" by (simp add: v_def js_divide_def js_times_def to_double_0)
    then show ?thesis using D0 True by (simp add: r_def)
  next
    case False
    then have "\<bar>v - 100 * rat_of_nat c / rat_of_nat n\<bar> \<le> 300 / 2 ^ 53"
      unfolding v_def using product_close(2) [OF _ cn] by simp
    then show ?thesis using small by (simp add: r_def)
  qed
  have Dr: "0 < rat_of_int D" using D0 by simp
  show "percentage_of c n = \<lfloor>100 * rat_of_nat c / rat_of_nat n + 1 / 2\<rfloor>" if "\<not> halfway c n"
  proof -
    from that tie m0 have m1: "1 \<le> m" by simp
    have m2: "m \<le> D - 1" using mD by simp
    have "1 / rat_of_int D \<le> rat_of_int m / rat_of_int D"
      using m1 Dr by (simp add: divide_right_mono)
    then have lo: "of_int k + 1 / rat_of_int D \<le> r" by (simp add: rk)
    have "rat_of_int m \<le> rat_of_int D - 1"
      using m2 by (metis of_int_le_iff of_int_diff of_int_1)
    then have "rat_of_int m / rat_of_int D \<le> (rat_of_int D - 1) / rat_of_int D"
      using Dr by (simp add: divide_right_mono)
    also have "\<dots> = 1 - 1 / rat_of_int D" using Dr by (simp add: field_simps)
    finally have hi: "r \<le> of_int k + 1 - 1 / rat_of_int D" by (simp add: rk)
    have "of_int k \<le> v + 1 / 2" "v + 1 / 2 < of_int k + 1"
      using close lo hi by linarith+
    then have "\<lfloor>v + 1 / 2\<rfloor> = k" by (simp add: floor_unique)
    then show ?thesis using fl by (simp add: p r_def)
  qed
  show "percentage_of c n = \<lfloor>100 * rat_of_nat c / rat_of_nat n + 1 / 2\<rfloor>
         \<or> percentage_of c n = \<lfloor>100 * rat_of_nat c / rat_of_nat n + 1 / 2\<rfloor> - 1" if "halfway c n"
  proof -
    from that tie have "m = 0" by simp
    then have r: "r = of_int k" by (simp add: rk)
    have "1 \<le> D" using D0 by simp
    then have "1 \<le> rat_of_int D" by (metis of_int_le_iff of_int_1)
    then have "1 / rat_of_int D \<le> 1" by simp
    with close r have b: "of_int k - 1 < v + 1 / 2" "v + 1 / 2 < of_int k + 1" by linarith+
    have "\<lfloor>v + 1 / 2\<rfloor> = k \<or> \<lfloor>v + 1 / 2\<rfloor> = k - 1"
    proof (cases "of_int k \<le> v + 1 / 2")
      case True
      with b have "\<lfloor>v + 1 / 2\<rfloor> = k" by (simp add: floor_unique)
      then show ?thesis by simp
    next
      case False
      with b have "of_int (k - 1) \<le> v + 1 / 2" "v + 1 / 2 < of_int (k - 1) + 1" by simp_all
      then have "\<lfloor>v + 1 / 2\<rfloor> = k - 1" by (rule floor_unique)
      then show ?thesis by simp
    qed
    then show ?thesis using fl by (auto simp add: p r_def)
  qed
qed

lemma percentage_of_23_40: "percentage_of 23 40 = 57"
  by code_simp

section \<open>Toggling a subtask\<close>

lemma length_flip_completed: "length (flip_completed S i) = length S"
  by (simp add: flip_completed_def)

lemma flip_completed_nth_same:
  "0 \<le> i \<Longrightarrow> i < int (length S) \<Longrightarrow>
     flip_completed S i ! nat i = (S ! nat i)\<lparr>completed := \<not> completed (S ! nat i)\<rparr>"
  by (simp add: flip_completed_def)

lemma flip_completed_nth_other: "j \<noteq> nat i \<Longrightarrow> flip_completed S i ! j = S ! j"
  by (simp add: flip_completed_def)

lemma flip_completed_twice:
  "flip_completed (flip_completed S i) i = S"
proof (cases "nat i < length S")
  case True
  then show ?thesis by (simp add: flip_completed_def list_update_same_conv)
next
  case False
  then show ?thesis by (simp add: flip_completed_def list_update_beyond)
qed

lemma js_index_Some: "0 \<le> i \<Longrightarrow> i < int (length S) \<Longrightarrow> js_index S i = Some (S ! nat i)"
  by (simp add: js_index_def)

text \<open>The state after a toggle in range, for each answer of the network.\<close>

lemma toggleSubtaskCompletion_in_range:
  assumes "findTaskInData w taskId = Some task" and "subtasks task = Some S"
    and "0 \<le> i" and "i < int (length S)"
  shows "fst (toggleSubtaskCompletion E taskId i w) = None"
    and "tasks (snd (toggleSubtaskCompletion E taskId i w))
           = (tasks w)(taskId := Some (task\<lparr>subtasks := Some (flip_completed S i)\<rparr>))"
    and "requests (snd (toggleSubtaskCompletion E taskId i w))
           = requests w @ [put_subtasks E taskId (task\<lparr>subtasks := Some (flip_completed S i)\<rparr>)
                             (flip_completed S i)]"
    and "synced (snd (toggleSubtaskCompletion E taskId i w)) = synced w"
  using assms
  by (simp_all add: toggleSubtaskCompletion_def js_index_Some Let_def split: fetch_result.split)

lemma toggleSubtaskCompletion_console:
  assumes "findTaskInData w taskId = Some task" and "subtasks task = Some S"
    and "0 \<le> i" and "i < int (length S)"
    and "fetch E (put_subtasks E taskId (task\<lparr>subtasks := Some (flip_completed S i)\<rparr>)
                    (flip_completed S i)) = Rejected e"
  shows "console (snd (toggleSubtaskCompletion E taskId i w))
           = console w @ [Error (''Failed to save updated subtasks for Task ID '' @ taskId @ '':'')
                            (Some e)]"
    and "document (snd (toggleSubtaskCompletion E taskId i w)) = document w"
  using assms
  by (simp_all add: toggleSubtaskCompletion_def js_index_Some Let_def)

lemma updateSubtaskState_in_range:
  assumes "subtasks task = Some S" and "0 \<le> i" and "i < int (length S)"
  shows "fst (updateSubtaskState task i w) = task\<lparr>subtasks := Some (flip_completed S i)\<rparr>"
    and "synced (snd (updateSubtaskState task i w))
           = synced w @ [(task_id task, flip_completed S i, category task)]"
    and "requests (snd (updateSubtaskState task i w)) = requests w"
    and "tasks (snd (updateSubtaskState task i w)) = tasks w"
    and "console (snd (updateSubtaskState task i w)) = console w"
  using assms
  by (simp_all add: updateSubtaskState_def js_index_Some Let_def updateSubtaskProgress_def
      syncSubtasksWithFirebase_def calculateProgress_def)

text \<open>
  An index out of range: \<^verbatim>\<open>updateSubtaskState\<close> checks the element, writes the error to
  the console and returns; \<^verbatim>\<open>toggleSubtaskCompletion\<close> has no such check and throws.
\<close>

lemma toggleSubtaskCompletion_out_of_range:
  assumes "findTaskInData w taskId = Some task" and "subtasks task = Some S"
    and "js_index S i = None"
  shows "toggleSubtaskCompletion E taskId i w = (Some TypeError, w)"
  using assms by (simp add: toggleSubtaskCompletion_def)

lemma updateSubtaskState_out_of_range:
  assumes "js_index (case subtasks task of None \<Rightarrow> [] | Some a \<Rightarrow> a) i = None"
  shows "updateSubtaskState task i w =
    (task, w\<lparr>console := console w @
       [Error (''Subtask with index '' @ string_of_int i @ '' not found.'') None]\<rparr>)"
  using assms by (simp add: updateSubtaskState_def)

lemma updateSubtaskState_index_5_of_2:
  "updateSubtaskState (task\<lparr>subtasks := Some [a, b]\<rparr>) 5 w
   = (task\<lparr>subtasks := Some [a, b]\<rparr>,
      w\<lparr>console := console w @ [Error ''Subtask with index 5 not found.'' None]\<rparr>)"
  by (simp add: updateSubtaskState_def js_index_def string_of_int_def digits.simps)

section \<open>Completion percentage\<close>

text \<open>
  Claim C1. For every array the percentage is \<open>100 * c / |S|\<close> rounded to the nearest
  integer, halves up. The code does not compute that: it evaluates
  \<^verbatim>\<open>(completed / total) * 100\<close>, so the quotient is rounded to a double before it is
  multiplied. With 23 of 40 subtasks completed the exact ratio is \<open>57.5\<close>, which rounds
  half up to 58; \<^verbatim>\<open>23 / 40\<close> is the double just below \<open>0.575\<close>, its product with 100 the
  double just below \<open>57.5\<close>, and \<^verbatim>\<open>Math.round\<close> returns 57.
\<close>

theorem calculateProgress_23_of_40:
  "snd (calculateProgress (JArray (replicate 23 \<lparr>completed = True\<rparr> @ replicate 17 \<lparr>completed = False\<rparr>))) = 57
   \<and> spec_computePercentage (replicate 23 \<lparr>completed = True\<rparr> @ replicate 17 \<lparr>completed = False\<rparr>) = 58"
  by (simp add: calculateProgress_def spec_computePercentage_def percentage_of_23_40)

text \<open>
  The same happens with 29, 57 and 113 of 200 subtasks completed.
\<close>

lemma percentage_of_below_the_half:
  "percentage_of 29 200 = 14" "percentage_of 57 200 = 28" "percentage_of 113 200 = 56"
  by code_simp+

text \<open>
  Elsewhere the code keeps to the claim: for every array \<open>S\<close> of fewer than \<open>2\<^sup>3\<^sup>2\<close>
  subtasks both percentage functions return the same integer \<open>p\<close> without logging or
  throwing, \<open>0 \<le> p \<le> 100\<close>, \<open>p = 0\<close> when \<open>S\<close> is empty, and \<open>p\<close> is the exact ratio rounded
  half up whenever that ratio is not halfway between two integers. When it is halfway,
  \<open>p\<close> is never further off than one below.
\<close>

lemma calculateProgress_percentage:
  assumes "length S < 2 ^ 32"
  shows "calculateProgress (JArray S) = ([], percentage_of (length (filter completed S)) (length S))
    \<and> calculateProgressPercentage (JArray S) = Inr (percentage_of (length (filter completed S)) (length S))
    \<and> 0 \<le> percentage_of (length (filter completed S)) (length S)
    \<and> percentage_of (length (filter completed S)) (length S) \<le> 100
    \<and> (S = [] \<longrightarrow> percentage_of (length (filter completed S)) (length S) = 0)
    \<and> (\<not> halfway (length (filter completed S)) (length S) \<longrightarrow>
          percentage_of (length (filter completed S)) (length S) = spec_computePercentage S)
    \<and> (halfway (length (filter completed S)) (length S) \<longrightarrow>
          percentage_of (length (filter completed S)) (length S) = spec_computePercentage S
        \<or> percentage_of (length (filter completed S)) (length S) = spec_computePercentage S - 1)"
proof -
  define c where "c = length (filter completed S)"
  define n where "n = length S"
  have cn: "c \<le> n" by (simp add: c_def n_def)
  have nb: "n < 2 ^ 32" using assms by (simp add: n_def)
  have e: "S = [] \<Longrightarrow> percentage_of c n = 0" by (simp add: c_def percentage_of_0)
  have sp: "S \<noteq> [] \<Longrightarrow> spec_computePercentage S = \<lfloor>100 * rat_of_nat c / rat_of_nat n + 1 / 2\<rfloor>"
    by (simp add: spec_computePercentage_def c_def n_def)
  have s0: "S = [] \<Longrightarrow> spec_computePercentage S = 0"
    by (simp add: spec_computePercentage_def)
  have n0: "S \<noteq> [] \<Longrightarrow> 0 < n" by (simp add: n_def)
  have x: "\<not> halfway c n \<Longrightarrow> percentage_of c n = spec_computePercentage S"
    using percentage_of_exact(1) [OF cn _ nb] e s0 sp n0 by (cases "S = []") simp_all
  have t: "halfway c n \<Longrightarrow> percentage_of c n = spec_computePercentage S
        \<or> percentage_of c n = spec_computePercentage S - 1"
    using percentage_of_exact(2) [OF cn _ nb] e s0 sp n0 by (cases "S = []") simp_all
  show ?thesis
    unfolding c_def [symmetric] n_def [symmetric]
    using percentage_of_range [OF cn] e x t
    by (simp add: calculateProgress_def calculateProgressPercentage_def c_def n_def)
qed

text \<open>
  The example of the specification: two of three subtasks completed give 67.
\<close>

lemma calculateProgress_two_of_three:
  "length [\<lparr>completed = True\<rparr>, \<lparr>completed = False\<rparr>, \<lparr>completed = True\<rparr>] < 2 ^ 32
   \<and> \<not> halfway 2 3
   \<and> calculateProgress (JArray [\<lparr>completed = True\<rparr>, \<lparr>completed = False\<rparr>, \<lparr>completed = True\<rparr>]) = ([], 67)"
proof -
  have "\<lfloor>403 / 6 :: rat\<rfloor> = 67" by (rule floor_unique) simp_all
  then show ?thesis
    using calculateProgress_percentage [of "[\<lparr>completed = True\<rparr>, \<lparr>completed = False\<rparr>, \<lparr>completed = True\<rparr>]"]
    by (simp add: halfway_def spec_computePercentage_def)
qed

section \<open>Toggling out of range\<close>

text \<open>
  Claim C2. For an index out of range the toggle changes nothing, sends nothing, reports
  the error and throws nothing. \<^verbatim>\<open>updateSubtaskState\<close> does so
  (\<open>updateSubtaskState_out_of_range\<close>). \<^verbatim>\<open>toggleSubtaskCompletion\<close> does not: for index 5
  of a task with two subtasks, in every state and environment, its promise is rejected
  with a \<^verbatim>\<open>TypeError\<close>; the state, the console included, stays as it was.
\<close>

theorem toggleSubtaskCompletion_index_5_of_2:
  "toggleSubtaskCompletion E taskId 5
     (w\<lparr>tasks := (tasks w)(taskId := Some (task\<lparr>subtasks := Some [a, b]\<rparr>))\<rparr>)
   = (Some TypeError, w\<lparr>tasks := (tasks w)(taskId := Some (task\<lparr>subtasks := Some [a, b]\<rparr>))\<rparr>)"
  by (simp add: toggleSubtaskCompletion_def findTaskInData_def js_index_def)

section \<open>Exceptions\<close>

text \<open>
  Claim C3. No operation lets an exception reach its caller. The code does at two
  places that have no guard: \<^verbatim>\<open>toggleSubtaskCompletion\<close> with an index out of range, here
  index \<open>-1\<close> of a task with one subtask, rejects its promise with a \<^verbatim>\<open>TypeError\<close>, and
  \<^verbatim>\<open>calculateProgressPercentage\<close> throws a \<^verbatim>\<open>TypeError\<close> on \<^verbatim>\<open>undefined\<close>.
\<close>

theorem exceptions_reach_the_caller:
  "fst (toggleSubtaskCompletion E taskId (- 1)
     (w\<lparr>tasks := (tasks w)(taskId := Some (task\<lparr>subtasks := Some [a]\<rparr>))\<rparr>)) = Some TypeError
   \<and> calculateProgressPercentage JUndefined = Inl TypeError"
  by (simp add: toggleSubtaskCompletion_def findTaskInData_def js_index_def
      calculateProgressPercentage_def)

section \<open>Input that is not an array\<close>

text \<open>
  Claim C4. For every input that is not an array the percentage is 0, with a warning on
  the console and no failure for the caller; for the empty array it is 0 as well.
  \<^verbatim>\<open>calculateProgress\<close> does so (\<open>calculateProgress_invalid_input\<close>).
  \<^verbatim>\<open>calculateProgressPercentage\<close> has no \<^verbatim>\<open>Array.isArray\<close> guard: on every value that is not
  an array it throws a \<^verbatim>\<open>TypeError\<close>, where its sibling warns and returns 0.
\<close>

theorem calculateProgressPercentage_not_an_array:
  "calculateProgressPercentage (JUndefined :: 'a js_value) = Inl TypeError
   \<and> calculateProgressPercentage (JNull :: 'a js_value) = Inl TypeError
   \<and> calculateProgressPercentage (JBoolean b :: 'a js_value) = Inl TypeError
   \<and> calculateProgressPercentage (JNumber x :: 'a js_value) = Inl TypeError
   \<and> calculateProgressPercentage (JString s :: 'a js_value) = Inl TypeError
   \<and> calculateProgressPercentage (JObject :: 'a js_value) = Inl TypeError
   \<and> calculateProgress (JNull :: 'a js_value)
       = ([Warn ''Invalid subtasks array. Returning 0 progress.''], 0)"
  by (simp add: calculateProgressPercentage_def calculateProgress_def)

text \<open>
  The guarded function on every value that is not an array, and both functions on the
  empty array.
\<close>

lemma calculateProgress_invalid_input:
  "(\<not> Array_isArray (v :: 'a js_value) \<longrightarrow>
      calculateProgress v = ([Warn ''Invalid subtasks array. Returning 0 progress.''], 0))
   \<and> calculateProgress (JArray [] :: 'a js_value) = ([], 0)
   \<and> calculateProgressPercentage (JArray [] :: 'a js_value) = Inr 0"
  by (cases v) (simp_all add: calculateProgress_def calculateProgressPercentage_def percentage_of_def)

section \<open>A failed write\<close>

text \<open>
  Claim C5. When the write of a toggle fails, the flag stays as toggled, the failure is
  reported and no exception leaves the toggle. The code reports a failure only when the
  promise of \<^verbatim>\<open>fetch\<close> is rejected (\<open>toggleSubtaskCompletion_fetch_rejected\<close>). When the
  store refuses the write, here with status 401, the promise is fulfilled, the code
  does not look at the response, and the toggle ends with the flag negated in memory,
  no exception and nothing new on the console.
\<close>

theorem toggleSubtaskCompletion_store_refuses:
  "fst (toggleSubtaskCompletion (E\<lparr>fetch := (\<lambda>_. Fulfilled 401)\<rparr>) taskId 1
       (w\<lparr>tasks := (tasks w)(taskId := Some (task\<lparr>subtasks := Some [a, b]\<rparr>))\<rparr>)) = None
   \<and> map_option subtasks (findTaskInData
       (snd (toggleSubtaskCompletion (E\<lparr>fetch := (\<lambda>_. Fulfilled 401)\<rparr>) taskId 1
          (w\<lparr>tasks := (tasks w)(taskId := Some (task\<lparr>subtasks := Some [a, b]\<rparr>))\<rparr>)))
       taskId)
     = Some (Some [a, b\<lparr>completed := \<not> completed b\<rparr>])
   \<and> console (snd (toggleSubtaskCompletion (E\<lparr>fetch := (\<lambda>_. Fulfilled 401)\<rparr>) taskId 1
       (w\<lparr>tasks := (tasks w)(taskId := Some (task\<lparr>subtasks := Some [a, b]\<rparr>))\<rparr>)))
     = console w"
  by (simp add: toggleSubtaskCompletion_def findTaskInData_def js_index_def flip_completed_def
      Let_def)

text \<open>
  The path that the code does report: the task is found, the index is in range and the
  promise of \<^verbatim>\<open>fetch\<close> is rejected. The promise of the toggle is fulfilled all the same,
  the task in memory has the flag at that index negated, and the console has got one
  more entry, the error with the reason of the rejection.
\<close>

lemma toggleSubtaskCompletion_fetch_rejected:
  assumes "findTaskInData w taskId = Some task" and "subtasks task = Some S"
    and "0 \<le> i" and "i < int (length S)"
    and "fetch E (put_subtasks E taskId (task\<lparr>subtasks := Some (flip_completed S i)\<rparr>)
                    (flip_completed S i)) = Rejected e"
  shows "fst (toggleSubtaskCompletion E taskId i w) = None
    \<and> findTaskInData (snd (toggleSubtaskCompletion E taskId i w)) taskId
        = Some (task\<lparr>subtasks := Some (flip_completed S i)\<rparr>)
    \<and> completed (flip_completed S i ! nat i) = (\<not> completed (S ! nat i))
    \<and> console (snd (toggleSubtaskCompletion E taskId i w))
        = console w @ [Error (''Failed to save updated subtasks for Task ID '' @ taskId @ '':'')
                         (Some e)]"
  using toggleSubtaskCompletion_in_range(1,2) [OF assms(1-4), of E]
    toggleSubtaskCompletion_console(1) [OF assms]
    flip_completed_nth_same [OF assms(3,4)]
  by (simp add: findTaskInData_def)

section \<open>The progress bar\<close>

text \<open>
  Claim C6. A call of \<^verbatim>\<open>updateProgressBar\<close> with total 0 leaves the document without the
  container of the task and changes nothing else. A call with a positive total, for a
  task whose container, fill element and counter exist, shows the container, sets the
  width of the fill to the percentage and the counter to the text
  \<^verbatim>\<open>completed/total Subtasks\<close>.
\<close>

theorem updateProgressBar_indicator:
  "updateProgressBar taskId p c0 (Some 0) d
     = d\<lparr>progress_bar_container := (progress_bar_container d)(taskId := None)\<rparr>
   \<and> (0 < t \<and> progress_bar_container d taskId = Some cont
        \<and> progress_bar_fill cont = Some f \<and> span cont = Some s \<longrightarrow>
       updateProgressBar taskId p (Some c) (Some t) d
         = d\<lparr>progress_bar_container := (progress_bar_container d)(taskId := Some
              \<lparr>display = ''block'',
               progress_bar_fill = Some (f\<lparr>width := string_of_int p @ ''%'',
                  backgroundColor := (if p = 0 then ''lightgray'' else ''blue'')\<rparr>),
               span = Some (string_of_int c @ ''/'' @ string_of_int t @ '' Subtasks'')\<rparr>)\<rparr>)"
proof -
  have "updateProgressBar taskId p c0 (Some 0) d
     = d\<lparr>progress_bar_container := (progress_bar_container d)(taskId := None)\<rparr>"
  proof (cases "progress_bar_container d taskId")
    case None
    then have "(progress_bar_container d)(taskId := None) = progress_bar_container d"
      by (simp add: fun_upd_idem_iff)
    then show ?thesis using None by (simp add: updateProgressBar_def)
  next
    case (Some a)
    then show ?thesis by (simp add: updateProgressBar_def)
  qed
  then show ?thesis
    by (cases cont) (simp add: updateProgressBar_def template_def)
qed

theorem updateProgressBar_indicator_witness:
  "progress_bar_container (updateProgressBar ''7'' 50 (Some 1) (Some 2) example_document) ''7''
     = Some \<lparr>display = ''block'',
             progress_bar_fill = Some \<lparr>width = ''50%'', backgroundColor = ''blue''\<rparr>,
             span = Some ''1/2 Subtasks''\<rparr>
   \<and> progress_bar_container (updateProgressBar ''7'' 0 (Some 0) (Some 0) example_document) ''7''
     = None"
  using updateProgressBar_indicator [of "''7''" 50 "Some 1" example_document 2
      "\<lparr>display = ''none'',
         progress_bar_fill = Some \<lparr>width = ''0%'', backgroundColor = ''lightgray''\<rparr>,
         span = Some ''0/2 Subtasks''\<rparr>" "\<lparr>width = ''0%'', backgroundColor = ''lightgray''\<rparr>"
      "''0/2 Subtasks''" 1]
    updateProgressBar_indicator [of "''7''" 0 "Some 0" example_document 2
      "\<lparr>display = ''none'',
         progress_bar_fill = Some \<lparr>width = ''0%'', backgroundColor = ''lightgray''\<rparr>,
         span = Some ''0/2 Subtasks''\<rparr>" "\<lparr>width = ''0%'', backgroundColor = ''lightgray''\<rparr>"
      "''0/2 Subtasks''" 1]
  by (simp add: example_document_def string_of_int_def digits.simps)

text \<open>
  \<^verbatim>\<open>updateSubtaskProgress\<close> calls \<^verbatim>\<open>updateProgressBar\<close> with two arguments. The total is then
  \<^verbatim>\<open>undefined\<close>, and the call removes the container of the task like a call with total 0.
\<close>

lemma updateProgressBar_two_arguments:
  "updateProgressBar taskId p None None d
     = d\<lparr>progress_bar_container := (progress_bar_container d)(taskId := None)\<rparr>"
proof (cases "progress_bar_container d taskId")
  case None
  then have "(progress_bar_container d)(taskId := None) = progress_bar_container d"
    by (simp add: fun_upd_idem_iff)
  then show ?thesis using None by (simp add: updateProgressBar_def)
next
  case (Some a)
  then show ?thesis by (simp add: updateProgressBar_def)
qed

section \<open>Toggling index 1 of two open subtasks\<close>

text \<open>
  Claim C7. Toggling index 1 of \<^verbatim>\<open>[{completed:false},{completed:false}]\<close> gives
  \<^verbatim>\<open>[{completed:false},{completed:true}]\<close> and exactly one call to the store, with that
  array: \<^verbatim>\<open>toggleSubtaskCompletion\<close> sends one PUT request whose body is the array
  serialised and makes no call of \<^verbatim>\<open>syncSubtasksWithFirebase\<close>; \<^verbatim>\<open>updateSubtaskState\<close>
  calls \<^verbatim>\<open>syncSubtasksWithFirebase\<close> once with the array and sends no request.
\<close>

theorem toggle_index_1_of_two:
  "map_option subtasks (findTaskInData (snd (toggleSubtaskCompletion E taskId 1
       (w\<lparr>tasks := (tasks w)(taskId := Some (task\<lparr>subtasks :=
            Some [\<lparr>completed = False\<rparr>, \<lparr>completed = False\<rparr>]\<rparr>))\<rparr>))) taskId)
     = Some (Some [\<lparr>completed = False\<rparr>, \<lparr>completed = True\<rparr>])
   \<and> requests (snd (toggleSubtaskCompletion E taskId 1
       (w\<lparr>tasks := (tasks w)(taskId := Some (task\<lparr>subtasks :=
            Some [\<lparr>completed = False\<rparr>, \<lparr>completed = False\<rparr>]\<rparr>))\<rparr>)))
     = requests w @
       [\<lparr>url = TASK_URL E @ ''/'' @ category task @ ''/'' @ taskId @ ''/subtasks.json'',
         http_method = ''PUT'',
         headers = [(''Content-Type'', ''application/json'')],
         body = JSON_stringify E [\<lparr>completed = False\<rparr>, \<lparr>completed = True\<rparr>]\<rparr>]
   \<and> subtasks (fst (updateSubtaskState
         (task\<lparr>subtasks := Some [\<lparr>completed = False\<rparr>, \<lparr>completed = False\<rparr>]\<rparr>) 1 w))
     = Some [\<lparr>completed = False\<rparr>, \<lparr>completed = True\<rparr>]
   \<and> synced (snd (updateSubtaskState
         (task\<lparr>subtasks := Some [\<lparr>completed = False\<rparr>, \<lparr>completed = False\<rparr>]\<rparr>) 1 w))
     = synced w @
       [(task_id task, [\<lparr>completed = False\<rparr>, \<lparr>completed = True\<rparr>], category task)]
   \<and> synced (snd (toggleSubtaskCompletion E taskId 1
       (w\<lparr>tasks := (tasks w)(taskId := Some (task\<lparr>subtasks :=
            Some [\<lparr>completed = False\<rparr>, \<lparr>completed = False\<rparr>]\<rparr>))\<rparr>)))
     = synced w
   \<and> requests (snd (updateSubtaskState
         (task\<lparr>subtasks := Some [\<lparr>completed = False\<rparr>, \<lparr>completed = False\<rparr>]\<rparr>) 1 w))
     = requests w"
proof -
  let ?S = "[\<lparr>completed = False\<rparr>, \<lparr>completed = False\<rparr>]"
  let ?t = "task\<lparr>subtasks := Some ?S\<rparr>"
  let ?w = "w\<lparr>tasks := (tasks w)(taskId := Some ?t)\<rparr>"
  have f: "flip_completed ?S 1 = [\<lparr>completed = False\<rparr>, \<lparr>completed = True\<rparr>]"
    by (simp add: flip_completed_def)
  have a: "findTaskInData ?w taskId = Some ?t" by (simp add: findTaskInData_def)
  have b: "subtasks ?t = Some ?S" by simp
  have c: "(0::int) \<le> 1" "(1::int) < int (length ?S)" by simp_all
  show ?thesis
    using toggleSubtaskCompletion_in_range(2,3,4) [OF a b c, of E]
      updateSubtaskState_in_range(1,2,3) [OF b c, of w]
    by (simp add: f findTaskInData_def put_subtasks_def)
qed


section \<open>What a toggle leaves alone\<close>

text \<open>
  Claim C8. For an index in range, both toggles leave a task that differs from the
  old one in the \<^verbatim>\<open>completed\<close> flag at that index only: identifier, category and the
  other fields of the task, the length of the sequence, every other subtask and the
  other fields of the subtask at the index are as before; no other task changes.
\<close>

theorem toggle_changes_only_completed:
  assumes "findTaskInData w taskId = Some task" and "subtasks task = Some S"
    and "0 \<le> i" and "i < int (length S)"
  shows "\<exists>task' S'.
      findTaskInData (snd (toggleSubtaskCompletion E taskId i w)) taskId = Some task'
    \<and> fst (updateSubtaskState task i w0) = task'
    \<and> subtasks task' = Some S'
    \<and> task_id task' = task_id task
    \<and> category task' = category task
    \<and> task.more task' = task.more task
    \<and> length S' = length S
    \<and> completed (S' ! nat i) = (\<not> completed (S ! nat i))
    \<and> subtask.more (S' ! nat i) = subtask.more (S ! nat i)
    \<and> (\<forall>j. j \<noteq> nat i \<longrightarrow> S' ! j = S ! j)
    \<and> (\<forall>k. k \<noteq> taskId \<longrightarrow>
          findTaskInData (snd (toggleSubtaskCompletion E taskId i w)) k = findTaskInData w k)"
proof (intro exI conjI)
  show "findTaskInData (snd (toggleSubtaskCompletion E taskId i w)) taskId
          = Some (task\<lparr>subtasks := Some (flip_completed S i)\<rparr>)"
    using toggleSubtaskCompletion_in_range(2) [OF assms, of E] by (simp add: findTaskInData_def)
  show "fst (updateSubtaskState task i w0) = task\<lparr>subtasks := Some (flip_completed S i)\<rparr>"
    by (rule updateSubtaskState_in_range(1) [OF assms(2-4)])
  show "subtasks (task\<lparr>subtasks := Some (flip_completed S i)\<rparr>) = Some (flip_completed S i)"
    by simp
  show "task_id (task\<lparr>subtasks := Some (flip_completed S i)\<rparr>) = task_id task" by simp
  show "category (task\<lparr>subtasks := Some (flip_completed S i)\<rparr>) = category task" by simp
  show "task.more (task\<lparr>subtasks := Some (flip_completed S i)\<rparr>) = task.more task" by simp
  show "length (flip_completed S i) = length S" by (rule length_flip_completed)
  show "completed (flip_completed S i ! nat i) = (\<not> completed (S ! nat i))"
    by (simp add: flip_completed_nth_same [OF assms(3,4)])
  show "subtask.more (flip_completed S i ! nat i) = subtask.more (S ! nat i)"
    by (simp add: flip_completed_nth_same [OF assms(3,4)])
  show "\<forall>j. j \<noteq> nat i \<longrightarrow> flip_completed S i ! j = S ! j"
    by (simp add: flip_completed_nth_other)
  show "\<forall>k. k \<noteq> taskId \<longrightarrow>
          findTaskInData (snd (toggleSubtaskCompletion E taskId i w)) k = findTaskInData w k"
    using toggleSubtaskCompletion_in_range(2) [OF assms, of E] by (simp add: findTaskInData_def)
qed

theorem toggle_changes_only_completed_witness:
  "map_option subtasks
     (findTaskInData (snd (toggleSubtaskCompletion (example_env_3 (Fulfilled 200)) ''7'' 1 example_world_3))
        ''7'')
     = Some (Some [\<lparr>completed = True, \<dots> = ''design''\<rparr>, \<lparr>completed = True, \<dots> = ''build''\<rparr>,
          \<lparr>completed = False, \<dots> = ''ship''\<rparr>])"
proof -
  let ?task = "\<lparr>task_id = ''7'', category = ''todo'', subtasks = Some example_three\<rparr>"
  have a: "findTaskInData example_world_3 ''7'' = Some ?task"
    by (simp add: example_world_3_def findTaskInData_def)
  have b: "subtasks ?task = Some example_three" by simp
  have c: "(0::int) \<le> 1" "(1::int) < int (length example_three)"
    by (simp_all add: example_three_def)
  obtain task' S' where
    f: "findTaskInData (snd (toggleSubtaskCompletion (example_env_3 (Fulfilled 200)) ''7'' 1
          example_world_3)) ''7'' = Some task'"
    and s: "subtasks task' = Some S'"
    and l: "length S' = length example_three"
    and c1: "completed (S' ! nat 1) = (\<not> completed (example_three ! nat 1))"
    and m1: "subtask.more (S' ! nat 1) = subtask.more (example_three ! nat 1)"
    and o: "\<forall>j. j \<noteq> nat 1 \<longrightarrow> S' ! j = example_three ! j"
    using toggle_changes_only_completed [OF a b c, of "example_env_3 (Fulfilled 200)" example_world_3]
    by blast
  have "S' ! 0 = example_three ! 0" "S' ! Suc (Suc 0) = example_three ! Suc (Suc 0)"
    using o by simp_all
  moreover have "S' ! Suc 0 = \<lparr>completed = True, \<dots> = ''build''\<rparr>"
    using c1 m1 by (cases "S' ! Suc 0") (simp add: example_three_def)
  moreover have "length S' = 3" using l by (simp add: example_three_def)
  ultimately have "S' = [\<lparr>completed = True, \<dots> = ''design''\<rparr>,
      \<lparr>completed = True, \<dots> = ''build''\<rparr>, \<lparr>completed = False, \<dots> = ''ship''\<rparr>]"
    by (simp add: example_three_def list_eq_iff_nth_eq nth_Cons' less_Suc_eq numeral_3_eq_3)
  then show ?thesis using f s by simp
qed

section \<open>The two percentage functions agree on arrays\<close>

text \<open>
  Claim C9. For every array of subtasks, \<^verbatim>\<open>calculateProgress\<close> and
  \<^verbatim>\<open>calculateProgressPercentage\<close> return the same number; \<^verbatim>\<open>calculateProgress\<close> writes
  nothing to the console and \<^verbatim>\<open>calculateProgressPercentage\<close> does not throw.
\<close>

theorem calculateProgress_eq_calculateProgressPercentage:
  "calculateProgressPercentage (JArray S) = Inr (snd (calculateProgress (JArray S)))
   \<and> fst (calculateProgress (JArray S)) = []"
  by (simp add: calculateProgress_def calculateProgressPercentage_def)


section \<open>Toggling twice\<close>

text \<open>
  Claim C10. For an index in range, a toggle changes the task and a second toggle at the
  same index gives back the task as it was, whatever the network answers to either.
\<close>

theorem toggle_twice_restores:
  assumes "findTaskInData w taskId = Some task" and "subtasks task = Some S"
    and "0 \<le> i" and "i < int (length S)"
  shows "findTaskInData (snd (toggleSubtaskCompletion E' taskId i
            (snd (toggleSubtaskCompletion E taskId i w)))) taskId = Some task
    \<and> findTaskInData (snd (toggleSubtaskCompletion E taskId i w)) taskId \<noteq> Some task
    \<and> fst (updateSubtaskState (fst (updateSubtaskState task i w0)) i w1) = task
    \<and> fst (updateSubtaskState task i w0) \<noteq> task"
proof -
  let ?t = "task\<lparr>subtasks := Some (flip_completed S i)\<rparr>"
  let ?w = "snd (toggleSubtaskCompletion E taskId i w)"
  have ne: "flip_completed S i \<noteq> S"
  proof
    assume "flip_completed S i = S"
    then have "completed (flip_completed S i ! nat i) = completed (S ! nat i)" by simp
    then show False by (simp add: flip_completed_nth_same [OF assms(3,4)])
  qed
  have a: "findTaskInData ?w taskId = Some ?t"
    using toggleSubtaskCompletion_in_range(2) [OF assms, of E] by (simp add: findTaskInData_def)
  have b: "subtasks ?t = Some (flip_completed S i)" by simp
  have c: "i < int (length (flip_completed S i))" using assms(4) by (simp add: length_flip_completed)
  have restored: "(?t)\<lparr>subtasks := Some (flip_completed (flip_completed S i) i)\<rparr> = task"
    using assms(2) by (simp add: flip_completed_twice)
  have "findTaskInData (snd (toggleSubtaskCompletion E' taskId i ?w)) taskId = Some task"
    using toggleSubtaskCompletion_in_range(2) [OF a b assms(3) c, of E'] restored
    by (simp add: findTaskInData_def)
  moreover have "findTaskInData ?w taskId \<noteq> Some task"
    using a ne assms(2) by (metis b option.inject)
  moreover have "fst (updateSubtaskState (fst (updateSubtaskState task i w0)) i w1) = task"
    using updateSubtaskState_in_range(1) [OF assms(2-4), of w0]
      updateSubtaskState_in_range(1) [OF b assms(3) c, of w1] restored
    by simp
  moreover have "fst (updateSubtaskState task i w0) \<noteq> task"
    using updateSubtaskState_in_range(1) [OF assms(2-4), of w0] ne assms(2)
    by (metis b option.inject)
  ultimately show ?thesis by simp
qed

theorem toggle_twice_restores_witness:
  "findTaskInData (snd (toggleSubtaskCompletion (example_env (Rejected FetchFailed)) ''7'' 0
      (snd (toggleSubtaskCompletion (example_env (Fulfilled 200)) ''7'' 0 example_world)))) ''7''
     = Some example_task
   \<and> fst (updateSubtaskState (fst (updateSubtaskState example_task 0 example_world)) 0
        example_world) = example_task"
  using toggle_twice_restores [of example_world "''7''" example_task
      "[\<lparr>completed = False\<rparr>, \<lparr>completed = False\<rparr>]" 0 "example_env (Rejected FetchFailed)"
      "example_env (Fulfilled 200)" example_world example_world]
  by (simp add: example_world_def example_task_def findTaskInData_def)


end
